theory Spec2Isabelle
  imports Main "HOL-Library.Sublist"
begin

section \<open>The patient repository of MediConnect (services/patientsService.ts)\<close>

text \<open>
  The service keeps the patients in a module-level array \<open>MOCK_DB\<close> and offers
  \<open>listPatients\<close>, \<open>getPatientById\<close>, \<open>createPatient\<close>, \<open>updatePatient\<close> and
  \<open>deletePatient\<close>. Each operation is modelled as a function that takes the array and
  returns the new one together with the value the promise resolves to; a rejected promise is
  an \<open>Inl\<close> value.

  Conventions of the embedding.
  \<^item> A JavaScript string is a \<open>string\<close> whose characters are the code units of the text;
    the model covers texts whose code units lie in the range 0 to 255 (Latin-1), which
    includes Portuguese names.
  \<^item> An optional property \<open>x?: T\<close> is a \<open>T option\<close>, \<open>None\<close> being \<open>undefined\<close>; a
    property of type \<open>T | null\<close> is a \<open>T nullable\<close>.
  \<^item> The timestamps \<open>created_at\<close> and \<open>updated_at\<close> are ISO strings written by
    \<open>new Date().toISOString()\<close> and read back by \<open>new Date(s).getTime()\<close>; the model
    keeps the instant they denote, in milliseconds since the epoch, as an \<open>int\<close>; a
    missing or empty timestamp, which the comparison of \<open>listPatients\<close> replaces by 0,
    is \<open>None\<close>.
  \<^item> The clock (\<open>new Date()\<close>) and the identifier generator (\<open>crypto.randomUUID()\<close>)
    belong to the platform: their results are arguments \<open>now\<close> and \<open>uuid\<close> of the
    operations that call them.
  \<^item> \<open>page\<close> and \<open>pageSize\<close> are integers.
\<close>

subsection \<open>Data model (types/patient.ts)\<close>

datatype 'a nullable = Null | Val 'a

text \<open>
  A property of a \<open>Partial\<close> object: missing from the object, or present with a value.
  For an optional property the value may be \<open>undefined\<close> (\<open>Present None\<close>), which
  overrides the stored value as the spread does; a required property (\<open>full_name\<close>,
  \<open>cpf\<close>, \<open>birth_date\<close>, \<open>phone_primary\<close>) is a string when it is present, as the
  type \<open>Patient\<close> of the merged record demands.
\<close>

datatype 'a patch = Absent | Present 'a

type_synonym js_number = int
type_synonym text_field = "string nullable option"
type_synonym timestamp = int

text \<open>
  \<open>PatientUpdate = Partial<PatientInsert> & { id: string }\<close>. An object with further keys
  is assignable to this type, and the spread of \<open>updatePatient\<close> copies every key the
  payload has. The further keys that are properties of a \<open>Patient\<close> are \<open>created_at\<close> and
  \<open>updated_at\<close>: the payload of the model may carry them.
\<close>

record PatientUpdate =
  id_field :: string
  photo_url :: "text_field patch"
  full_name :: "string patch"
  social_name :: "text_field patch"
  cpf :: "string patch"
  rg :: "text_field patch"
  other_document_type :: "text_field patch"
  other_document_number :: "text_field patch"
  gender :: "text_field patch"
  birth_date :: "string patch"
  ethnicity :: "text_field patch"
  race :: "text_field patch"
  nationality :: "text_field patch"
  birth_city :: "text_field patch"
  birth_state :: "text_field patch"
  profession :: "text_field patch"
  marital_status :: "text_field patch"
  mother_name :: "text_field patch"
  father_name :: "text_field patch"
  responsible_name :: "text_field patch"
  responsible_cpf :: "text_field patch"
  legacy_code :: "text_field patch"
  email :: "text_field patch"
  phone_primary :: "string patch"
  phone_secondary :: "text_field patch"
  address_zip_code :: "text_field patch"
  address_street :: "text_field patch"
  address_number :: "text_field patch"
  address_complement :: "text_field patch"
  address_district :: "text_field patch"
  address_city :: "text_field patch"
  address_state :: "text_field patch"
  observations :: "text_field patch"
  behavior_score :: "js_number nullable option patch"
  absenteeism_risk_score :: "js_number nullable option patch"
  communication_preferences :: "(string \<rightharpoonup> bool) nullable option patch"
  created_at :: "timestamp option patch"
  updated_at :: "timestamp option patch"

text \<open>
  \<open>PatientInsert = Omit<Patient, "id" | "created_at" | "updated_at">\<close>. Should a payload
  of \<open>createPatient\<close> carry one of the three keys, the assignments that follow the spread
  replace it, so the payload of the model leaves them out.
\<close>

record PatientInsert =
  photo_url :: text_field
  full_name :: string
  social_name :: text_field
  cpf :: string
  rg :: text_field
  other_document_type :: text_field
  other_document_number :: text_field
  gender :: text_field
  birth_date :: string
  ethnicity :: text_field
  race :: text_field
  nationality :: text_field
  birth_city :: text_field
  birth_state :: text_field
  profession :: text_field
  marital_status :: text_field
  mother_name :: text_field
  father_name :: text_field
  responsible_name :: text_field
  responsible_cpf :: text_field
  legacy_code :: text_field
  email :: text_field
  phone_primary :: string
  phone_secondary :: text_field
  address_zip_code :: text_field
  address_street :: text_field
  address_number :: text_field
  address_complement :: text_field
  address_district :: text_field
  address_city :: text_field
  address_state :: text_field
  observations :: text_field
  behavior_score :: "js_number nullable option"
  absenteeism_risk_score :: "js_number nullable option"
  communication_preferences :: "(string \<rightharpoonup> bool) nullable option"

text \<open>\<open>Patient\<close>: the properties of \<open>PatientInsert\<close> and the three the system assigns.\<close>

record Patient = PatientInsert +
  id_field :: "string option"
  created_at :: "timestamp option"
  updated_at :: "timestamp option"

record ListPatientsParams =
  page :: "int option"
  pageSize :: "int option"
  search :: "string option"

record ListPatientsResult =
  data :: "Patient list"
  count :: nat

datatype error = PatientNotFound

subsection \<open>Strings and arrays of the platform\<close>

text \<open>\<open>\D\<close> is every code unit outside \<open>0\<close> to \<open>9\<close>.\<close>

definition is_digit :: "char \<Rightarrow> bool" where
  "is_digit c = (c \<in> set ''0123456789'')"

text \<open>\<open>onlyDigits = (v) => (v || "").replace(/\D+/g, "")\<close>\<close>

definition onlyDigits :: "string \<Rightarrow> string" where
  "onlyDigits v = filter is_digit v"

text \<open>
  \<open>String.prototype.toLowerCase\<close> on Latin-1 code units: \<open>A\<close> to \<open>Z\<close> and the
  accented capitals 192 to 222 (without the multiplication sign 215) move up by 32.
\<close>

definition lower_char :: "char \<Rightarrow> char" where
  "lower_char c =
     (let n = (of_char c :: nat)
      in if (65 \<le> n \<and> n \<le> 90) \<or> (192 \<le> n \<and> n \<le> 222 \<and> n \<noteq> 215)
         then char_of (n + 32) else c)"

definition toLowerCase :: "string \<Rightarrow> string" where
  "toLowerCase s = map lower_char s"

text \<open>\<open>String.prototype.includes\<close>: the needle occurs at some position of the text.\<close>

fun str_includes :: "string \<Rightarrow> string \<Rightarrow> bool" where
  "str_includes [] needle = (needle = [])"
| "str_includes (c # cs) needle = (prefix needle (c # cs) \<or> str_includes cs needle)"

text \<open>
  \<open>Array.prototype.sort\<close> with a comparison function is stable: an element goes before
  the first one it does not have to follow.
\<close>

fun js_insert :: "('a \<Rightarrow> 'a \<Rightarrow> int) \<Rightarrow> 'a \<Rightarrow> 'a list \<Rightarrow> 'a list" where
  "js_insert cmp x [] = [x]"
| "js_insert cmp x (y # ys) = (if cmp x y \<le> 0 then x # y # ys else y # js_insert cmp x ys)"

definition js_sort :: "('a \<Rightarrow> 'a \<Rightarrow> int) \<Rightarrow> 'a list \<Rightarrow> 'a list" where
  "js_sort cmp xs = foldr (js_insert cmp) xs []"

text \<open>
  \<open>Array.prototype.slice(start, end)\<close>: a negative index counts from the end, and both
  indices are clamped to the array.
\<close>

definition js_slice :: "'a list \<Rightarrow> int \<Rightarrow> int \<Rightarrow> 'a list" where
  "js_slice xs start end =
     (let len = int (length xs);
          k = (if start < 0 then max (len + start) 0 else min start len);
          fin = (if end < 0 then max (len + end) 0 else min end len)
      in take (nat (fin - k)) (drop (nat k) xs))"

text \<open>\<open>Array.prototype.findIndex\<close>: the first index that satisfies the test, or \<open>-1\<close>.\<close>

fun findIndex :: "('a \<Rightarrow> bool) \<Rightarrow> 'a list \<Rightarrow> int" where
  "findIndex P [] = - 1"
| "findIndex P (x # xs) =
     (if P x then 0 else (let i = findIndex P xs in if i < 0 then - 1 else i + 1))"

subsection \<open>The service\<close>

definition matchesSearch :: "Patient \<Rightarrow> string \<Rightarrow> bool" where
  "matchesSearch p term =
     (if term = [] then True
      else (let t = toLowerCase term;
                cpf' = onlyDigits (cpf p)
            in str_includes (toLowerCase (full_name p)) t \<or> str_includes cpf' (onlyDigits t)))"

text \<open>\<open>a.created_at ? new Date(a.created_at).getTime() : 0\<close>\<close>

definition created_ms :: "Patient \<Rightarrow> int" where
  "created_ms a = (case created_at a of None \<Rightarrow> 0 | Some t \<Rightarrow> t)"

text \<open>The comparison function of \<open>listPatients\<close>: \<open>bd - ad\<close>.\<close>

definition compareCreated :: "Patient \<Rightarrow> Patient \<Rightarrow> int" where
  "compareCreated a b = (let ad = created_ms a; bd = created_ms b in bd - ad)"

text \<open>The local constants \<open>sorted\<close> and \<open>filtered\<close> of \<open>listPatients\<close>.\<close>

definition sortedPatients :: "Patient list \<Rightarrow> Patient list" where
  "sortedPatients db = js_sort compareCreated db"

definition filteredPatients :: "Patient list \<Rightarrow> string \<Rightarrow> Patient list" where
  "filteredPatients db term = filter (\<lambda>p. matchesSearch p term) (sortedPatients db)"

definition listPatients :: "Patient list \<Rightarrow> ListPatientsParams \<Rightarrow> ListPatientsResult" where
  "listPatients db params =
     (let page' = (case page params of None \<Rightarrow> 1 | Some v \<Rightarrow> v);
          pageSize' = (case pageSize params of None \<Rightarrow> 10 | Some v \<Rightarrow> v);
          search' = (case search params of None \<Rightarrow> [] | Some v \<Rightarrow> v);
          filtered = filteredPatients db search';
          count' = length filtered;
          from = (page' - 1) * pageSize';
          to = from + pageSize';
          data' = js_slice filtered from to
      in \<lparr>data = data', count = count'\<rparr>)"

definition getPatientById :: "Patient list \<Rightarrow> string \<Rightarrow> Patient option" where
  "getPatientById db i = find (\<lambda>p. Patient.id_field p = Some i) db"

text \<open>
  The constant \<open>entity\<close> of \<open>createPatient\<close>: the payload's properties, then \<open>id\<close>,
  \<open>created_at\<close> and \<open>updated_at\<close>, both timestamps from the one reading \<open>now\<close>.
\<close>

definition entity :: "timestamp \<Rightarrow> string \<Rightarrow> PatientInsert \<Rightarrow> Patient" where
  "entity now uuid payload =
     PatientInsert.extend payload (Patient.fields (Some uuid) (Some now) (Some now))"

text \<open>\<open>createPatient\<close> pushes the entity at the end of the array and returns it.\<close>

definition createPatient ::
  "timestamp \<Rightarrow> string \<Rightarrow> Patient list \<Rightarrow> PatientInsert \<Rightarrow> Patient \<times> Patient list" where
  "createPatient now uuid db payload =
     (let e = entity now uuid payload in (e, db @ [e]))"

text \<open>One property of the spread \<open>{...existing, ...payload}\<close>.\<close>

fun overlay :: "'a \<Rightarrow> 'a patch \<Rightarrow> 'a" where
  "overlay old Absent = old"
| "overlay old (Present v) = v"

text \<open>
  \<open>{ ...MOCK_DB[idx], ...payload, updated_at: new Date().toISOString() }\<close>: every key of
  the payload goes over the stored record, \<open>id\<close> and \<open>created_at\<close> included, and only
  \<open>updated_at\<close> is written after the spread.
\<close>

definition merged :: "timestamp \<Rightarrow> Patient \<Rightarrow> PatientUpdate \<Rightarrow> Patient" where
  "merged now e u = e
     \<lparr> photo_url := overlay (photo_url e) (PatientUpdate.photo_url u),
       full_name := overlay (full_name e) (PatientUpdate.full_name u),
       social_name := overlay (social_name e) (PatientUpdate.social_name u),
       cpf := overlay (cpf e) (PatientUpdate.cpf u),
       rg := overlay (rg e) (PatientUpdate.rg u),
       other_document_type := overlay (other_document_type e) (PatientUpdate.other_document_type u),
       other_document_number :=
         overlay (other_document_number e) (PatientUpdate.other_document_number u),
       gender := overlay (gender e) (PatientUpdate.gender u),
       birth_date := overlay (birth_date e) (PatientUpdate.birth_date u),
       ethnicity := overlay (ethnicity e) (PatientUpdate.ethnicity u),
       race := overlay (race e) (PatientUpdate.race u),
       nationality := overlay (nationality e) (PatientUpdate.nationality u),
       birth_city := overlay (birth_city e) (PatientUpdate.birth_city u),
       birth_state := overlay (birth_state e) (PatientUpdate.birth_state u),
       profession := overlay (profession e) (PatientUpdate.profession u),
       marital_status := overlay (marital_status e) (PatientUpdate.marital_status u),
       mother_name := overlay (mother_name e) (PatientUpdate.mother_name u),
       father_name := overlay (father_name e) (PatientUpdate.father_name u),
       responsible_name := overlay (responsible_name e) (PatientUpdate.responsible_name u),
       responsible_cpf := overlay (responsible_cpf e) (PatientUpdate.responsible_cpf u),
       legacy_code := overlay (legacy_code e) (PatientUpdate.legacy_code u),
       email := overlay (email e) (PatientUpdate.email u),
       phone_primary := overlay (phone_primary e) (PatientUpdate.phone_primary u),
       phone_secondary := overlay (phone_secondary e) (PatientUpdate.phone_secondary u),
       address_zip_code := overlay (address_zip_code e) (PatientUpdate.address_zip_code u),
       address_street := overlay (address_street e) (PatientUpdate.address_street u),
       address_number := overlay (address_number e) (PatientUpdate.address_number u),
       address_complement := overlay (address_complement e) (PatientUpdate.address_complement u),
       address_district := overlay (address_district e) (PatientUpdate.address_district u),
       address_city := overlay (address_city e) (PatientUpdate.address_city u),
       address_state := overlay (address_state e) (PatientUpdate.address_state u),
       observations := overlay (observations e) (PatientUpdate.observations u),
       behavior_score := overlay (behavior_score e) (PatientUpdate.behavior_score u),
       absenteeism_risk_score :=
         overlay (absenteeism_risk_score e) (PatientUpdate.absenteeism_risk_score u),
       communication_preferences :=
         overlay (communication_preferences e) (PatientUpdate.communication_preferences u),
       created_at := overlay (created_at e) (PatientUpdate.created_at u),
       updated_at := overlay (updated_at e) (PatientUpdate.updated_at u),
       Patient.id_field := Some (PatientUpdate.id_field u),
       updated_at := Some now \<rparr>"

definition updatePatient ::
  "timestamp \<Rightarrow> Patient list \<Rightarrow> PatientUpdate \<Rightarrow> (error + Patient) \<times> Patient list" where
  "updatePatient now db payload =
     (let idx = findIndex (\<lambda>p. Patient.id_field p = Some (PatientUpdate.id_field payload)) db
      in if idx < 0 then (Inl PatientNotFound, db)
         else (let updated = merged now (db ! nat idx) payload
               in (Inr updated, db[nat idx := updated])))"

definition deletePatient :: "Patient list \<Rightarrow> string \<Rightarrow> Patient list" where
  "deletePatient db i = filter (\<lambda>p. Patient.id_field p \<noteq> Some i) db"


subsection \<open>The validation of the form (FormSchema, fields \<open>cpf\<close> and \<open>phone_primary\<close>)\<close>

text \<open>
  \<open>z.string().min(1).transform((v) => onlyDigits(v)).refine((v) => v.length === 11)\<close>
  and, for the telephone, \<open>.refine((v) => v.length >= 10)\<close>; \<open>None\<close> is a rejected input.
\<close>

definition schema_cpf :: "string \<Rightarrow> string option" where
  "schema_cpf v =
     (if length v < 1 then None
      else (let d = onlyDigits v in if length d = 11 then Some d else None))"

definition schema_phone_primary :: "string \<Rightarrow> string option" where
  "schema_phone_primary v =
     (if length v < 1 then None
      else (let d = onlyDigits v in if 10 \<le> length d then Some d else None))"

subsection \<open>Sequences of calls\<close>

text \<open>
  The callers of the service (the form page and the list page) create, update and delete;
  \<open>MOCK_DB\<close> starts empty. A call carries what the platform hands to it: the clock's
  reading and, for a creation, the generated identifier.
\<close>

datatype op =
    Create timestamp string PatientInsert
  | Update timestamp PatientUpdate
  | Delete string

fun step :: "Patient list \<Rightarrow> op \<Rightarrow> Patient list" where
  "step db (Create now uuid payload) = snd (createPatient now uuid db payload)"
| "step db (Update now payload) = snd (updatePatient now db payload)"
| "step db (Delete i) = deletePatient db i"

definition run :: "op list \<Rightarrow> Patient list" where
  "run ops = foldl step [] ops"

text \<open>The readings of the clock, in the order of the calls.\<close>

fun clock_readings :: "op list \<Rightarrow> timestamp list" where
  "clock_readings [] = []"
| "clock_readings (Create now uuid payload # ops) = now # clock_readings ops"
| "clock_readings (Update now payload # ops) = now # clock_readings ops"
| "clock_readings (Delete i # ops) = clock_readings ops"

definition clock_monotone :: "op list \<Rightarrow> bool" where
  "clock_monotone ops = sorted (clock_readings ops)"

text \<open>
  The contract the repository assumes of its payloads: a \<open>cpf\<close> of exactly 11 digits and a
  \<open>phone_primary\<close> of at least 10 digits, wherever the payload carries them.
\<close>

definition digits_only :: "string \<Rightarrow> bool" where
  "digits_only s = list_all is_digit s"

definition valid_cpf :: "string \<Rightarrow> bool" where
  "valid_cpf s = (length s = 11 \<and> digits_only s)"

definition valid_phone :: "string \<Rightarrow> bool" where
  "valid_phone s = (10 \<le> length s \<and> digits_only s)"

definition valid_insert :: "PatientInsert \<Rightarrow> bool" where
  "valid_insert payload = (valid_cpf (cpf payload) \<and> valid_phone (phone_primary payload))"

definition valid_update :: "PatientUpdate \<Rightarrow> bool" where
  "valid_update payload =
     ((case PatientUpdate.cpf payload of Absent \<Rightarrow> True | Present c \<Rightarrow> valid_cpf c) \<and>
      (case PatientUpdate.phone_primary payload of Absent \<Rightarrow> True | Present ph \<Rightarrow> valid_phone ph))"

fun valid_op :: "op \<Rightarrow> bool" where
  "valid_op (Create now uuid payload) = valid_insert payload"
| "valid_op (Update now payload) = valid_update payload"
| "valid_op (Delete i) = True"

text \<open>A call whose payload has the keys of its declared type only: no \<open>created_at\<close>.\<close>

fun without_created_at :: "op \<Rightarrow> bool" where
  "without_created_at (Create now uuid payload) = True"
| "without_created_at (Update now payload) = (PatientUpdate.created_at payload = Absent)"
| "without_created_at (Delete i) = True"

subsection \<open>Example payloads\<close>

definition example_insert :: "string \<Rightarrow> string \<Rightarrow> string \<Rightarrow> PatientInsert" where
  "example_insert name c ph =
     \<lparr> photo_url = None,
       full_name = name,
       social_name = None,
       cpf = c,
       rg = None,
       other_document_type = None,
       other_document_number = None,
       gender = None,
       birth_date = ''1990-05-10'',
       ethnicity = None,
       race = None,
       nationality = None,
       birth_city = None,
       birth_state = None,
       profession = None,
       marital_status = None,
       mother_name = None,
       father_name = None,
       responsible_name = None,
       responsible_cpf = None,
       legacy_code = None,
       email = None,
       phone_primary = ph,
       phone_secondary = None,
       address_zip_code = None,
       address_street = None,
       address_number = None,
       address_complement = None,
       address_district = None,
       address_city = None,
       address_state = None,
       observations = None,
       behavior_score = None,
       absenteeism_risk_score = None,
       communication_preferences = None \<rparr>"

text \<open>The payload \<open>{ id, full_name }\<close>.\<close>

definition example_update :: "string \<Rightarrow> string \<Rightarrow> PatientUpdate" where
  "example_update i name =
     \<lparr> PatientUpdate.id_field = i,
       PatientUpdate.photo_url = Absent,
       PatientUpdate.full_name = Present name,
       PatientUpdate.social_name = Absent,
       PatientUpdate.cpf = Absent,
       PatientUpdate.rg = Absent,
       PatientUpdate.other_document_type = Absent,
       PatientUpdate.other_document_number = Absent,
       PatientUpdate.gender = Absent,
       PatientUpdate.birth_date = Absent,
       PatientUpdate.ethnicity = Absent,
       PatientUpdate.race = Absent,
       PatientUpdate.nationality = Absent,
       PatientUpdate.birth_city = Absent,
       PatientUpdate.birth_state = Absent,
       PatientUpdate.profession = Absent,
       PatientUpdate.marital_status = Absent,
       PatientUpdate.mother_name = Absent,
       PatientUpdate.father_name = Absent,
       PatientUpdate.responsible_name = Absent,
       PatientUpdate.responsible_cpf = Absent,
       PatientUpdate.legacy_code = Absent,
       PatientUpdate.email = Absent,
       PatientUpdate.phone_primary = Absent,
       PatientUpdate.phone_secondary = Absent,
       PatientUpdate.address_zip_code = Absent,
       PatientUpdate.address_street = Absent,
       PatientUpdate.address_number = Absent,
       PatientUpdate.address_complement = Absent,
       PatientUpdate.address_district = Absent,
       PatientUpdate.address_city = Absent,
       PatientUpdate.address_state = Absent,
       PatientUpdate.observations = Absent,
       PatientUpdate.behavior_score = Absent,
       PatientUpdate.absenteeism_risk_score = Absent,
       PatientUpdate.communication_preferences = Absent,
       PatientUpdate.created_at = Absent,
       PatientUpdate.updated_at = Absent \<rparr>"

text \<open>The payload \<open>{ id, full_name: "X", created_at }\<close>.\<close>

definition example_update_created :: "string \<Rightarrow> timestamp \<Rightarrow> PatientUpdate" where
  "example_update_created i t =
     (example_update i ''X'')\<lparr>PatientUpdate.created_at := Present (Some t)\<rparr>"

definition maria :: PatientInsert where
  "maria = example_insert ''Maria Silva'' ''12345678901'' ''11999998888''"


definition example_ops :: "op list" where
  "example_ops = [Create 1 ''a'' maria, Create 2 ''b'' maria, Create 3 ''c'' maria]"


section \<open>Properties\<close>

lemmas example_defs = maria_def example_insert_def example_update_def createPatient_def
  entity_def PatientInsert.extend_def Patient.fields_def Let_def

subsection \<open>Strings\<close>

text \<open>\<open>str_includes\<close> decides the contiguous-substring relation of the library.\<close>

lemma str_includes_sublist: "str_includes hay needle \<longleftrightarrow> sublist needle hay"
  by (induction hay) (simp_all add: sublist_Cons_right)

lemma str_includes_Nil: "str_includes hay []"
  by (simp add: str_includes_sublist)

lemma is_digit_code: "is_digit c \<longleftrightarrow> 48 \<le> (of_char c :: nat) \<and> (of_char c :: nat) \<le> 57"
proof
  assume "is_digit c"
  then show "48 \<le> (of_char c :: nat) \<and> (of_char c :: nat) \<le> 57"
    by (auto simp: is_digit_def)
next
  assume a: "48 \<le> (of_char c :: nat) \<and> (of_char c :: nat) \<le> 57"
  define n where "n = (of_char c :: nat)"
  from a have "n = 48 \<or> n = 49 \<or> n = 50 \<or> n = 51 \<or> n = 52 \<or> n = 53 \<or> n = 54 \<or> n = 55 \<or> n = 56 \<or> n = 57"
    unfolding n_def by arith
  then have "char_of n \<in> set ''0123456789''"
    by (elim disjE) (simp_all add: char_of_def bit_Suc_0_iff)
  moreover have "char_of n = c" by (simp add: n_def)
  ultimately show "is_digit c"
    by (simp add: is_digit_def)
qed

text \<open>Lower-casing neither creates nor destroys a digit, so it commutes with \<open>onlyDigits\<close>.\<close>

lemma lower_char_digit: "is_digit (lower_char c) \<longleftrightarrow> is_digit c"
  by (auto simp: is_digit_code lower_char_def Let_def)

lemma lower_char_id_digit: "is_digit c \<Longrightarrow> lower_char c = c"
  by (auto simp: is_digit_code lower_char_def Let_def)

lemma onlyDigits_toLowerCase: "onlyDigits (toLowerCase t) = onlyDigits t"
  unfolding onlyDigits_def toLowerCase_def
  by (induction t) (auto simp: lower_char_digit lower_char_id_digit)

lemma onlyDigits_no_digit: "\<forall>c\<in>set t. \<not> is_digit c \<Longrightarrow> onlyDigits t = []"
  by (simp add: onlyDigits_def)

lemma matchesSearch_iff:
  "matchesSearch p t \<longleftrightarrow>
     t = [] \<or> sublist (toLowerCase t) (toLowerCase (full_name p)) \<or>
     sublist (onlyDigits t) (onlyDigits (cpf p))"
  by (simp add: matchesSearch_def Let_def str_includes_sublist onlyDigits_toLowerCase)

lemma matchesSearch_empty [simp]: "matchesSearch p []"
  by (simp add: matchesSearch_def)

subsection \<open>Sorting\<close>

text \<open>
  With the comparison function of \<open>listPatients\<close>, the stable sort of the platform is the
  library's stable insertion sort on the negated timestamp.
\<close>

lemma js_insert_insort:
  "js_insert compareCreated x ys = insort_key (\<lambda>p. - created_ms p) x ys"
  by (induction ys) (simp_all add: compareCreated_def Let_def)

lemma sortedPatients_sort_key: "sortedPatients db = sort_key (\<lambda>p. - created_ms p) db"
proof -
  have "js_insert compareCreated = insort_key (\<lambda>p. - created_ms p)"
    by (intro ext) (rule js_insert_insort)
  then show ?thesis
    by (simp add: sortedPatients_def js_sort_def sort_key_def)
qed

lemma set_sortedPatients: "set (sortedPatients db) = set db"
  by (simp add: sortedPatients_sort_key)

lemma length_sortedPatients: "length (sortedPatients db) = length db"
  by (simp add: sortedPatients_sort_key)



lemma sortedPatients_one: "sortedPatients [p] = [p]"
  by (simp add: sortedPatients_def js_sort_def)

lemma set_filteredPatients:
  "set (filteredPatients db t) = {p \<in> set db. matchesSearch p t}"
  by (auto simp: filteredPatients_def set_sortedPatients)

lemma filteredPatients_empty: "filteredPatients db [] = sortedPatients db"
  by (simp add: filteredPatients_def)

lemma listPatients_defaults:
  "listPatients db \<lparr>page = None, pageSize = None, search = None\<rparr> =
   listPatients db \<lparr>page = Some 1, pageSize = Some 10, search = Some []\<rparr>"
  by (simp add: listPatients_def)

subsection \<open>\<open>findIndex\<close>, \<open>entity\<close> and \<open>merged\<close>\<close>

lemma findIndex_neg_iff: "findIndex P xs < 0 \<longleftrightarrow> (\<forall>x\<in>set xs. \<not> P x)"
  by (induction xs) (auto simp: Let_def)

lemma findIndex_found:
  "0 \<le> findIndex P xs \<Longrightarrow>
     nat (findIndex P xs) < length xs \<and> P (xs ! nat (findIndex P xs)) \<and>
     (\<forall>j < nat (findIndex P xs). \<not> P (xs ! j))"
proof (induction xs)
  case Nil
  then show ?case by simp
next
  case (Cons x xs)
  show ?case
  proof (cases "P x")
    case True
    then show ?thesis by simp
  next
    case False
    with Cons.prems have nn: "0 \<le> findIndex P xs"
      by (simp add: Let_def split: if_splits)
    with False have eq: "findIndex P (x # xs) = findIndex P xs + 1"
      by (simp add: Let_def)
    from nn have n: "nat (findIndex P xs + 1) = Suc (nat (findIndex P xs))" by simp
    from Cons.IH [OF nn] False show ?thesis
      unfolding eq n by (auto simp: nth_Cons split: nat.splits)
  qed
qed

lemma entity_system_fields:
  "Patient.id_field (entity now uuid payload) = Some uuid"
  "created_at (entity now uuid payload) = Some now"
  "updated_at (entity now uuid payload) = Some now"
  by (simp_all add: entity_def PatientInsert.extend_def Patient.fields_def)

lemma entity_created_ms: "created_ms (entity now uuid payload) = now"
  by (simp add: created_ms_def entity_system_fields)


lemma entity_payload_fields:
  "full_name (entity now uuid payload) = full_name payload"
  "cpf (entity now uuid payload) = cpf payload"
  "phone_primary (entity now uuid payload) = phone_primary payload"
  by (simp_all add: entity_def PatientInsert.extend_def Patient.fields_def)

lemma merged_system_fields:
  "Patient.id_field (merged now e u) = Some (PatientUpdate.id_field u)"
  "created_at (merged now e u) = overlay (created_at e) (PatientUpdate.created_at u)"
  "updated_at (merged now e u) = Some now"
  by (simp_all add: merged_def)

lemma merged_payload_fields:
  "photo_url (merged now e u) = overlay (photo_url e) (PatientUpdate.photo_url u) \<and>
   full_name (merged now e u) = overlay (full_name e) (PatientUpdate.full_name u) \<and>
   social_name (merged now e u) = overlay (social_name e) (PatientUpdate.social_name u) \<and>
   cpf (merged now e u) = overlay (cpf e) (PatientUpdate.cpf u) \<and>
   rg (merged now e u) = overlay (rg e) (PatientUpdate.rg u) \<and>
   other_document_type (merged now e u) = overlay (other_document_type e) (PatientUpdate.other_document_type u) \<and>
   other_document_number (merged now e u) = overlay (other_document_number e) (PatientUpdate.other_document_number u) \<and>
   gender (merged now e u) = overlay (gender e) (PatientUpdate.gender u) \<and>
   birth_date (merged now e u) = overlay (birth_date e) (PatientUpdate.birth_date u) \<and>
   ethnicity (merged now e u) = overlay (ethnicity e) (PatientUpdate.ethnicity u) \<and>
   race (merged now e u) = overlay (race e) (PatientUpdate.race u) \<and>
   nationality (merged now e u) = overlay (nationality e) (PatientUpdate.nationality u) \<and>
   birth_city (merged now e u) = overlay (birth_city e) (PatientUpdate.birth_city u) \<and>
   birth_state (merged now e u) = overlay (birth_state e) (PatientUpdate.birth_state u) \<and>
   profession (merged now e u) = overlay (profession e) (PatientUpdate.profession u) \<and>
   marital_status (merged now e u) = overlay (marital_status e) (PatientUpdate.marital_status u) \<and>
   mother_name (merged now e u) = overlay (mother_name e) (PatientUpdate.mother_name u) \<and>
   father_name (merged now e u) = overlay (father_name e) (PatientUpdate.father_name u) \<and>
   responsible_name (merged now e u) = overlay (responsible_name e) (PatientUpdate.responsible_name u) \<and>
   responsible_cpf (merged now e u) = overlay (responsible_cpf e) (PatientUpdate.responsible_cpf u) \<and>
   legacy_code (merged now e u) = overlay (legacy_code e) (PatientUpdate.legacy_code u) \<and>
   email (merged now e u) = overlay (email e) (PatientUpdate.email u) \<and>
   phone_primary (merged now e u) = overlay (phone_primary e) (PatientUpdate.phone_primary u) \<and>
   phone_secondary (merged now e u) = overlay (phone_secondary e) (PatientUpdate.phone_secondary u) \<and>
   address_zip_code (merged now e u) = overlay (address_zip_code e) (PatientUpdate.address_zip_code u) \<and>
   address_street (merged now e u) = overlay (address_street e) (PatientUpdate.address_street u) \<and>
   address_number (merged now e u) = overlay (address_number e) (PatientUpdate.address_number u) \<and>
   address_complement (merged now e u) = overlay (address_complement e) (PatientUpdate.address_complement u) \<and>
   address_district (merged now e u) = overlay (address_district e) (PatientUpdate.address_district u) \<and>
   address_city (merged now e u) = overlay (address_city e) (PatientUpdate.address_city u) \<and>
   address_state (merged now e u) = overlay (address_state e) (PatientUpdate.address_state u) \<and>
   observations (merged now e u) = overlay (observations e) (PatientUpdate.observations u) \<and>
   behavior_score (merged now e u) = overlay (behavior_score e) (PatientUpdate.behavior_score u) \<and>
   absenteeism_risk_score (merged now e u) = overlay (absenteeism_risk_score e) (PatientUpdate.absenteeism_risk_score u) \<and>
   communication_preferences (merged now e u) = overlay (communication_preferences e) (PatientUpdate.communication_preferences u)"
  by (simp add: merged_def)

subsection \<open>Facts about the example payloads\<close>

lemma maria_fields:
  "full_name maria = ''Maria Silva''" "cpf maria = ''12345678901''"
  "phone_primary maria = ''11999998888''"
  by (simp_all add: maria_def example_insert_def)

lemma example_update_fields:
  "PatientUpdate.id_field (example_update i name) = i"
  "PatientUpdate.full_name (example_update i name) = Present name"
  "PatientUpdate.cpf (example_update i name) = Absent"
  "PatientUpdate.phone_primary (example_update i name) = Absent"
  "PatientUpdate.created_at (example_update i name) = Absent"
  by (simp_all add: example_update_def)

lemma example_update_created_fields:
  "PatientUpdate.id_field (example_update_created i t) = i"
  "PatientUpdate.created_at (example_update_created i t) = Present (Some t)"
  by (simp_all add: example_update_created_def example_update_def)

lemma update_example_created:
  "updatePatient now [entity 5 ''a'' maria] (example_update_created ''a'' t) =
     (Inr (merged now (entity 5 ''a'' maria) (example_update_created ''a'' t)),
      [merged now (entity 5 ''a'' maria) (example_update_created ''a'' t)])"
  by (simp add: updatePatient_def Let_def entity_system_fields example_update_created_fields)

lemma lower_examples:
  "toLowerCase ''Maria Silva'' = ''maria silva''"
  "toLowerCase ''maria'' = ''maria''"
  "toLowerCase ''999'' = ''999''"
  "toLowerCase ''12345678901'' = ''12345678901''"
  "toLowerCase ''zzz'' = ''zzz''"
  by (simp_all add: toLowerCase_def lower_char_def char_of_def bit_Suc_0_iff)

lemma digits_examples:
  "onlyDigits ''12345678901'' = ''12345678901''"
  "onlyDigits ''maria'' = []"
  "onlyDigits ''999'' = ''999''"
  "onlyDigits ''zzz'' = []"
  by (simp_all add: onlyDigits_def is_digit_def)

lemma run_one: "run [Create now uuid payload] = [entity now uuid payload]"
  by (simp add: run_def createPatient_def Let_def)

lemma run_example_ops:
  "run example_ops = [entity 1 ''a'' maria, entity 2 ''b'' maria, entity 3 ''c'' maria]"
  by (simp add: example_ops_def run_def createPatient_def Let_def)

lemma sorted_example_ops:
  "sortedPatients (run example_ops) =
     [entity 3 ''c'' maria, entity 2 ''b'' maria, entity 1 ''a'' maria]"
  by (simp add: run_example_ops sortedPatients_def js_sort_def compareCreated_def
      entity_created_ms)

lemma matches_examples:
  "matchesSearch (entity 5 ''a'' maria) ''maria''"
  "matchesSearch (entity 5 ''a'' maria) ''12345678901''"
  "\<not> matchesSearch (entity 5 ''a'' maria) ''999''"
  by (simp_all add: matchesSearch_def Let_def entity_payload_fields maria_fields
      lower_examples digits_examples)

lemma update_example:
  "updatePatient now [entity 5 ''a'' maria] (example_update ''a'' ''X'') =
     (Inr (merged now (entity 5 ''a'' maria) (example_update ''a'' ''X'')),
      [merged now (entity 5 ''a'' maria) (example_update ''a'' ''X'')])"
  by (simp add: updatePatient_def Let_def entity_system_fields example_update_fields)

lemma update_example_cpf:
  "updatePatient now [entity 5 ''a'' maria]
     ((example_update ''a'' ''X'')\<lparr>PatientUpdate.cpf := Present ''98765432100''\<rparr>) =
     (Inr (merged now (entity 5 ''a'' maria)
        ((example_update ''a'' ''X'')\<lparr>PatientUpdate.cpf := Present ''98765432100''\<rparr>)),
      [merged now (entity 5 ''a'' maria)
        ((example_update ''a'' ''X'')\<lparr>PatientUpdate.cpf := Present ''98765432100''\<rparr>)])"
  by (simp add: updatePatient_def Let_def entity_system_fields example_update_fields)

lemma valid_examples:
  "valid_insert maria"
  "valid_update ((example_update ''a'' ''X'')\<lparr>PatientUpdate.cpf := Present ''98765432100''\<rparr>)"
  by (simp_all add: valid_insert_def valid_update_def valid_cpf_def valid_phone_def
      digits_only_def is_digit_def maria_fields example_update_fields)


subsection \<open>The form's validation meets the contract of the repository\<close>

lemma digits_only_onlyDigits: "digits_only (onlyDigits v)"
  by (simp add: digits_only_def onlyDigits_def list_all_iff)

lemma schema_cpf_valid: "schema_cpf v = Some d \<Longrightarrow> valid_cpf d"
  by (auto simp: schema_cpf_def valid_cpf_def Let_def digits_only_onlyDigits split: if_splits)

lemma schema_phone_primary_valid: "schema_phone_primary v = Some d \<Longrightarrow> valid_phone d"
  by (auto simp: schema_phone_primary_def valid_phone_def Let_def digits_only_onlyDigits
      split: if_splits)

subsection \<open>Sequences of calls\<close>

lemma run_snoc: "run (ops @ [x]) = step (run ops) x"
  by (simp add: run_def)

lemma set_updatePatient:
  "p \<in> set (snd (updatePatient now db payload)) \<Longrightarrow>
     p \<in> set db \<or> (\<exists>old\<in>set db. p = merged now old payload)"
proof (cases "findIndex (\<lambda>p. Patient.id_field p = Some (PatientUpdate.id_field payload)) db < 0")
  case True
  assume "p \<in> set (snd (updatePatient now db payload))"
  with True show ?thesis by (simp add: updatePatient_def Let_def)
next
  case False
  assume a: "p \<in> set (snd (updatePatient now db payload))"
  define idx where
    "idx = nat (findIndex (\<lambda>p. Patient.id_field p = Some (PatientUpdate.id_field payload)) db)"
  from False have nn:
    "0 \<le> findIndex (\<lambda>p. Patient.id_field p = Some (PatientUpdate.id_field payload)) db"
    by simp
  from findIndex_found [OF nn] have i: "idx < length db" by (simp add: idx_def)
  from a False have "p \<in> set (db[idx := merged now (db ! idx) payload])"
    by (simp add: updatePatient_def Let_def idx_def)
  then have "p \<in> insert (merged now (db ! idx) payload) (set db)"
    using set_update_subset_insert by fastforce
  with i show ?thesis by auto
qed

lemma set_step:
  "p \<in> set (step db x) \<Longrightarrow>
     p \<in> set db \<or>
     (\<exists>now uuid payload. x = Create now uuid payload \<and> p = entity now uuid payload) \<or>
     (\<exists>now payload old. x = Update now payload \<and> old \<in> set db \<and> p = merged now old payload)"
proof (cases x)
  case (Create now uuid payload)
  assume "p \<in> set (step db x)"
  with Create show ?thesis by (auto simp: createPatient_def Let_def)
next
  case (Update now payload)
  assume "p \<in> set (step db x)"
  with Update set_updatePatient [of p now db payload] show ?thesis by auto
next
  case (Delete i)
  assume "p \<in> set (step db x)"
  with Delete show ?thesis by (auto simp: deletePatient_def)
qed

lemma clock_readings_append:
  "clock_readings (ops @ ops') = clock_readings ops @ clock_readings ops'"
  by (induction ops rule: clock_readings.induct) simp_all




subsection \<open>Updating a patient that is not stored\<close>

text \<open>
  Claim C4. When no stored record has the identifier of the payload, \<open>updatePatient\<close>
  fails with the not-found error and the array is exactly the one it was given: nothing is
  added, removed or changed.
\<close>

theorem updatePatient_not_found:
  assumes "\<forall>p\<in>set db. Patient.id_field p \<noteq> Some (PatientUpdate.id_field payload)"
  shows "updatePatient now db payload = (Inl PatientNotFound, db)"
  using assms by (simp add: updatePatient_def Let_def findIndex_neg_iff)

theorem updatePatient_not_found_witness:
  "map Patient.id_field (run [Create 5 ''a'' maria]) = [Some ''a''] \<and>
   PatientUpdate.id_field (example_update ''b'' ''X'') = ''b'' \<and>
   updatePatient 9 (run [Create 5 ''a'' maria]) (example_update ''b'' ''X'') =
     (Inl PatientNotFound, run [Create 5 ''a'' maria])"
proof -
  have m: "map Patient.id_field (run [Create 5 ''a'' maria]) = [Some ''a'']"
    by (simp add: run_def example_defs)
  have i: "PatientUpdate.id_field (example_update ''b'' ''X'') = ''b''"
    by (simp add: example_defs)
  have h: "\<forall>p\<in>set (run [Create 5 ''a'' maria]).
       Patient.id_field p \<noteq> Some (PatientUpdate.id_field (example_update ''b'' ''X''))"
    by (simp add: run_def example_defs)
  from updatePatient_not_found [OF h] m i show ?thesis by blast
qed

subsection \<open>Deleting\<close>

text \<open>
  Claim C6. \<open>deletePatient\<close> keeps exactly the records whose identifier differs from the
  given one, so one call removes every matching record; when no record matches, the array
  is unchanged and nothing fails; and a second call with the same identifier changes nothing
  more.
\<close>

theorem deletePatient_idempotent:
  "deletePatient db i = filter (\<lambda>p. Patient.id_field p \<noteq> Some i) db \<and>
   (\<forall>p\<in>set (deletePatient db i). Patient.id_field p \<noteq> Some i) \<and>
   ((\<forall>p\<in>set db. Patient.id_field p \<noteq> Some i) \<longrightarrow> deletePatient db i = db) \<and>
   deletePatient (deletePatient db i) i = deletePatient db i"
  by (auto simp: deletePatient_def filter_id_conv)

theorem deletePatient_idempotent_witness:
  "map Patient.id_field (run [Create 6 ''b'' maria]) = [Some ''b''] \<and>
   deletePatient (run [Create 6 ''b'' maria]) ''a'' = run [Create 6 ''b'' maria] \<and>
   deletePatient (run [Create 5 ''a'' maria, Create 6 ''b'' maria]) ''a'' =
     run [Create 6 ''b'' maria] \<and>
   deletePatient (deletePatient (run [Create 5 ''a'' maria, Create 6 ''b'' maria]) ''a'') ''a'' =
     run [Create 6 ''b'' maria]"
proof -
  have m: "map Patient.id_field (run [Create 6 ''b'' maria]) = [Some ''b'']"
    by (simp add: run_def example_defs)
  have h: "\<forall>p\<in>set (run [Create 6 ''b'' maria]). Patient.id_field p \<noteq> Some ''a''"
    by (simp add: run_def example_defs)
  have e: "deletePatient (run [Create 5 ''a'' maria, Create 6 ''b'' maria]) ''a'' =
     run [Create 6 ''b'' maria]"
    by (simp add: run_def deletePatient_def example_defs)
  from deletePatient_idempotent [of "run [Create 6 ''b'' maria]" "''a''"] h
  have a: "deletePatient (run [Create 6 ''b'' maria]) ''a'' = run [Create 6 ''b'' maria]"
    by blast
  from m a e show ?thesis by simp
qed

subsection \<open>Listing: pagination\<close>

lemma js_slice_window:
  assumes "0 \<le> a" and "0 \<le> n"
  shows "js_slice xs a (a + n) = take (nat n) (drop (nat a) xs)"
proof (cases "a \<le> int (length xs)")
  case True
  show ?thesis
  proof (cases "a + n \<le> int (length xs)")
    case True
    with assms \<open>a \<le> int (length xs)\<close> show ?thesis
      by (simp add: js_slice_def Let_def min_def)
  next
    case False
    with assms True have "js_slice xs a (a + n) = take (length xs - nat a) (drop (nat a) xs)"
      by (simp add: js_slice_def Let_def min_def nat_diff_distrib)
    also have "\<dots> = drop (nat a) xs" by simp
    also have "\<dots> = take (nat n) (drop (nat a) xs)"
      using False assms by simp
    finally show ?thesis .
  qed
next
  case False
  with assms show ?thesis
    by (simp add: js_slice_def Let_def min_def)
qed

text \<open>The number of pages: \<open>(N + P - 1) div P\<close> is the ceiling of \<open>N / P\<close>.\<close>

lemma ceil_pages:
  fixes pg ps N :: int
  assumes "1 \<le> ps"
  shows "(pg - 1) * ps < N \<longleftrightarrow> pg \<le> (N + ps - 1) div ps"
proof -
  define q where "q = (N + ps - 1) div ps"
  define r where "r = (N + ps - 1) mod ps"
  have eq: "N + ps - 1 = q * ps + r"
    by (simp add: q_def r_def)
  have r: "0 \<le> r" "r < ps"
    using assms by (simp_all add: r_def)
  have "(pg - 1) * ps < N \<longleftrightarrow> pg * ps \<le> N + ps - 1"
    by (auto simp: algebra_simps)
  also have "\<dots> \<longleftrightarrow> pg * ps \<le> q * ps + r"
    by (simp only: eq)
  also have "\<dots> \<longleftrightarrow> pg \<le> q"
  proof
    assume le: "pg * ps \<le> q * ps + r"
    show "pg \<le> q"
    proof (rule ccontr)
      assume "\<not> pg \<le> q"
      then have "q + 1 \<le> pg" by simp
      then have "(q + 1) * ps \<le> pg * ps"
        using assms by (intro mult_right_mono) simp_all
      with le r show False by (simp add: algebra_simps)
    qed
  next
    assume "pg \<le> q"
    then have "pg * ps \<le> q * ps"
      using assms by (intro mult_right_mono) simp_all
    with r show "pg * ps \<le> q * ps + r" by linarith
  qed
  finally show ?thesis by (simp add: q_def)
qed

lemma concat_pages0:
  "concat (map (\<lambda>k. take n (drop (k * n) xs)) [0..<m]) = take (m * n) xs"
proof (induction m)
  case 0
  then show ?case by simp
next
  case (Suc m)
  have "take (Suc m * n) xs = take (m * n + n) xs" by (simp add: add.commute)
  also have "\<dots> = take (m * n) xs @ take n (drop (m * n) xs)" by (rule take_add)
  finally show ?case using Suc by simp
qed

lemma concat_pages1:
  "concat (map (\<lambda>k. take n (drop ((k - 1) * n) xs)) [1..<Suc m]) = take (m * n) xs"
proof -
  have "[1..<Suc m] = map Suc [0..<m]"
    by (simp add: map_Suc_upt)
  then have "map (\<lambda>k. take n (drop ((k - 1) * n) xs)) [1..<Suc m] =
             map (\<lambda>k. take n (drop (k * n) xs)) [0..<m]"
    by (simp add: comp_def del: upt_Suc)
  then show ?thesis by (simp only: concat_pages0)
qed

lemma listPatients_data:
  assumes "1 \<le> pg" and "1 \<le> ps"
  shows "data (listPatients db \<lparr>page = Some pg, pageSize = Some ps, search = Some t\<rparr>) =
         take (nat ps) (drop (nat ((pg - 1) * ps)) (filteredPatients db t))"
proof -
  from assms have "0 \<le> (pg - 1) * ps" by simp
  moreover from assms have "0 \<le> ps" by simp
  ultimately show ?thesis
    by (simp add: listPatients_def Let_def js_slice_window)
qed

lemma listPatients_count:
  "count (listPatients db \<lparr>page = Some pg, pageSize = Some ps, search = Some t\<rparr>) =
     length (filteredPatients db t)"
  by (simp add: listPatients_def Let_def)

lemma window_nonempty:
  assumes "1 \<le> pg" and "1 \<le> ps"
  shows "take (nat ps) (drop (nat ((pg - 1) * ps)) xs) \<noteq> [] \<longleftrightarrow>
         pg \<le> (int (length xs) + ps - 1) div ps"
proof -
  from assms have nn: "0 \<le> (pg - 1) * ps" by simp
  have "take (nat ps) (drop (nat ((pg - 1) * ps)) xs) \<noteq> [] \<longleftrightarrow>
        nat ((pg - 1) * ps) < length xs"
    using assms by (simp add: not_le)
  also have "\<dots> \<longleftrightarrow> (pg - 1) * ps < int (length xs)"
    using nn by linarith
  also have "\<dots> \<longleftrightarrow> pg \<le> (int (length xs) + ps - 1) div ps"
    using assms(2) by (rule ceil_pages)
  finally show ?thesis .
qed

lemma pages_concat:
  assumes "1 \<le> ps"
  shows "concat (map (\<lambda>k. take (nat ps) (drop (nat ((int k - 1) * ps)) xs))
           [1..<Suc (nat ((int (length xs) + ps - 1) div ps))]) = xs"
proof -
  define m where "m = nat ((int (length xs) + ps - 1) div ps)"
  define n where "n = nat ps"
  have n: "int n = ps" using assms by (simp add: n_def)
  have idx: "nat ((int k - 1) * ps) = (k - 1) * n" if "1 \<le> k" for k
  proof -
    from that have "int k - 1 = int (k - 1)" by simp
    then show ?thesis by (simp add: n [symmetric] nat_mult_distrib del: of_nat_diff)
  qed
  have "map (\<lambda>k. take (nat ps) (drop (nat ((int k - 1) * ps)) xs)) [1..<Suc m] =
        map (\<lambda>k. take n (drop ((k - 1) * n) xs)) [1..<Suc m]"
    using idx by (intro map_cong) (simp_all add: n_def del: upt_Suc)
  then have "concat (map (\<lambda>k. take (nat ps) (drop (nat ((int k - 1) * ps)) xs)) [1..<Suc m]) =
        take (m * n) xs"
    by (simp only: concat_pages1)
  moreover have "length xs \<le> m * n"
  proof -
    have "\<not> (int (m + 1) \<le> (int (length xs) + ps - 1) div ps)"
      by (simp add: m_def)
    then have "\<not> ((int (m + 1) - 1) * ps < int (length xs))"
      using ceil_pages [OF assms, of "int (m + 1)" "int (length xs)"] by simp
    then have "int (length xs) \<le> int m * int n"
      by (simp add: n)
    then show ?thesis
      by (metis of_nat_le_iff of_nat_mult)
  qed
  ultimately show ?thesis
    by (simp add: m_def)
qed

text \<open>
  Claim C1. For a page number and a page size of at least 1, \<open>listPatients\<close> returns as
  \<open>count\<close> the length of the whole filtered sequence, whatever the page, and as \<open>data\<close> the
  window from \<open>(page - 1) * pageSize\<close> of at most \<open>pageSize\<close> records of the sorted, filtered
  sequence; the window is empty, and nothing fails, exactly when the page lies beyond the
  last one, the number of non-empty pages being the ceiling of \<open>N / pageSize\<close>; and the
  pages from 1 to the last, one after the other, give back the filtered sequence.
\<close>

theorem listPatients_pagination:
  assumes "1 \<le> pg" and "1 \<le> ps"
  shows
    "count (listPatients db \<lparr>page = Some pg, pageSize = Some ps, search = Some t\<rparr>) =
       length (filteredPatients db t) \<and>
     data (listPatients db \<lparr>page = Some pg, pageSize = Some ps, search = Some t\<rparr>) =
       take (nat ps) (drop (nat ((pg - 1) * ps)) (filteredPatients db t)) \<and>
     (data (listPatients db \<lparr>page = Some pg, pageSize = Some ps, search = Some t\<rparr>) \<noteq> [] \<longleftrightarrow>
        pg \<le> (int (length (filteredPatients db t)) + ps - 1) div ps) \<and>
     concat (map (\<lambda>k. data (listPatients db
                \<lparr>page = Some (int k), pageSize = Some ps, search = Some t\<rparr>))
        [1..<Suc (nat ((int (length (filteredPatients db t)) + ps - 1) div ps))]) =
       filteredPatients db t"
proof -
  have c: "concat (map (\<lambda>k. data (listPatients db
                \<lparr>page = Some (int k), pageSize = Some ps, search = Some t\<rparr>))
        [1..<Suc (nat ((int (length (filteredPatients db t)) + ps - 1) div ps))]) =
       filteredPatients db t"
  proof -
    have "map (\<lambda>k. data (listPatients db
                \<lparr>page = Some (int k), pageSize = Some ps, search = Some t\<rparr>))
        [1..<Suc (nat ((int (length (filteredPatients db t)) + ps - 1) div ps))] =
      map (\<lambda>k. take (nat ps) (drop (nat ((int k - 1) * ps)) (filteredPatients db t)))
        [1..<Suc (nat ((int (length (filteredPatients db t)) + ps - 1) div ps))]"
      using assms(2) by (intro map_cong refl listPatients_data) (simp_all del: upt_Suc)
    then show ?thesis
      by (simp only: pages_concat [OF assms(2)])
  qed
  show ?thesis
    using listPatients_count listPatients_data [OF assms] window_nonempty [OF assms] c
    by simp
qed

theorem listPatients_pagination_witness:
  "(1::int) \<le> 2 \<and>
   count (listPatients (run example_ops) \<lparr>page = Some 2, pageSize = Some 2, search = Some []\<rparr>) = 3 \<and>
   data (listPatients (run example_ops) \<lparr>page = Some 2, pageSize = Some 2, search = Some []\<rparr>) =
     [entity 1 ''a'' maria] \<and>
   concat (map (\<lambda>k. data (listPatients (run example_ops)
       \<lparr>page = Some (int k), pageSize = Some 2, search = Some []\<rparr>)) [1..<Suc 2]) =
     [entity 3 ''c'' maria, entity 2 ''b'' maria, entity 1 ''a'' maria]"
proof -
  have f: "filteredPatients (run example_ops) [] =
      [entity 3 ''c'' maria, entity 2 ''b'' maria, entity 1 ''a'' maria]"
    by (simp add: filteredPatients_empty sorted_example_ops)
  have h: "(1::int) \<le> 2" by simp
  have n: "nat ((int (length [entity 3 ''c'' maria, entity 2 ''b'' maria, entity 1 ''a'' maria])
       + 2 - 1) div 2) = 2" by simp
  from listPatients_pagination [OF h h, of "run example_ops" "[]"]
  show ?thesis
    unfolding f n by simp
qed

subsection \<open>Listing: search\<close>

text \<open>
  Claim C2. A patient passes the filter of \<open>listPatients\<close> exactly when the term is empty,
  or the lower-cased term occurs in the lower-cased \<open>full_name\<close>, or the digits of the term
  occur in the digits of the \<open>cpf\<close>; the filtered records are the stored ones that pass.
  A stored record with the name Maria Silva and the cpf 12345678901 is returned for the
  terms \<open>maria\<close> and \<open>12345678901\<close> and not for \<open>999\<close>.
\<close>

theorem search_matches:
  "(matchesSearch p t \<longleftrightarrow>
      t = [] \<or> sublist (toLowerCase t) (toLowerCase (full_name p)) \<or>
      sublist (onlyDigits t) (onlyDigits (cpf p))) \<and>
   set (filteredPatients db t) = {q \<in> set db. matchesSearch q t} \<and>
   full_name (entity 5 ''a'' maria) = ''Maria Silva'' \<and>
   cpf (entity 5 ''a'' maria) = ''12345678901'' \<and>
   data (listPatients (run [Create 5 ''a'' maria])
      \<lparr>page = None, pageSize = None, search = Some ''maria''\<rparr>) = [entity 5 ''a'' maria] \<and>
   data (listPatients (run [Create 5 ''a'' maria])
      \<lparr>page = None, pageSize = None, search = Some ''12345678901''\<rparr>) = [entity 5 ''a'' maria] \<and>
   data (listPatients (run [Create 5 ''a'' maria])
      \<lparr>page = None, pageSize = None, search = Some ''999''\<rparr>) = []"
proof -
  have ex: "data (listPatients (run [Create 5 ''a'' maria])
      \<lparr>page = None, pageSize = None, search = Some ''maria''\<rparr>) = [entity 5 ''a'' maria]"
    "data (listPatients (run [Create 5 ''a'' maria])
      \<lparr>page = None, pageSize = None, search = Some ''12345678901''\<rparr>) = [entity 5 ''a'' maria]"
    "data (listPatients (run [Create 5 ''a'' maria])
      \<lparr>page = None, pageSize = None, search = Some ''999''\<rparr>) = []"
    by (simp_all add: listPatients_def filteredPatients_def run_one sortedPatients_one
        matches_examples js_slice_def)
  show ?thesis
    using matchesSearch_iff [of p t] set_filteredPatients [of db t] ex
    by (simp only: entity_payload_fields maria_fields simp_thms)
qed

theorem search_matches_witness:
  "matchesSearch (entity 5 ''a'' maria) ''silva'' \<and>
   sublist ''silva'' (toLowerCase (full_name (entity 5 ''a'' maria)))"
proof -
  have l: "toLowerCase ''silva'' = ''silva''"
    by (simp add: toLowerCase_def lower_char_def char_of_def bit_Suc_0_iff)
  have "str_includes ''maria silva'' ''silva''" by simp
  then have s: "sublist ''silva'' (toLowerCase (full_name (entity 5 ''a'' maria)))"
    by (simp add: str_includes_sublist entity_payload_fields maria_fields lower_examples)
  with search_matches [of "entity 5 ''a'' maria" "''silva''" "[]"] l show ?thesis
    by simp
qed

text \<open>
  Claim C10. A non-empty term without any digit has the empty string as its digits, and
  the empty string occurs in every cpf: every patient passes the filter, whether or not the
  term occurs in a name, and the listing is the one of the empty term, the whole array
  page by page.
\<close>

theorem digitless_term_matches_all:
  assumes "t \<noteq> []" and "\<forall>c\<in>set t. \<not> is_digit c"
  shows "onlyDigits t = [] \<and> matchesSearch p t \<and>
     filteredPatients db t = sortedPatients db \<and>
     count (listPatients db \<lparr>page = pg, pageSize = ps, search = Some t\<rparr>) = length db \<and>
     listPatients db \<lparr>page = pg, pageSize = ps, search = Some t\<rparr> =
       listPatients db \<lparr>page = pg, pageSize = ps, search = Some []\<rparr>"
proof -
  have d: "onlyDigits t = []" using assms(2) by (rule onlyDigits_no_digit)
  have m: "matchesSearch q t" for q
    using assms(1) by (simp add: matchesSearch_def Let_def onlyDigits_toLowerCase d str_includes_Nil)
  have f: "filteredPatients db t = sortedPatients db"
    by (simp add: filteredPatients_def m)
  show ?thesis
    using d m f
    by (simp add: listPatients_def Let_def filteredPatients_empty length_sortedPatients)
qed

theorem digitless_term_matches_all_witness:
  "''zzz'' \<noteq> [] \<and> list_all (\<lambda>c. \<not> is_digit c) ''zzz'' \<and>
   \<not> str_includes (toLowerCase (full_name (entity 5 ''a'' maria))) (toLowerCase ''zzz'') \<and>
   matchesSearch (entity 5 ''a'' maria) ''zzz'' \<and>
   count (listPatients (run [Create 5 ''a'' maria])
      \<lparr>page = None, pageSize = None, search = Some ''zzz''\<rparr>) = 1 \<and>
   data (listPatients (run [Create 5 ''a'' maria])
      \<lparr>page = None, pageSize = None, search = Some ''zzz''\<rparr>) = [entity 5 ''a'' maria]"
proof -
  have h1: "''zzz'' \<noteq> []" by simp
  have h2: "\<forall>c\<in>set ''zzz''. \<not> is_digit c" by (simp add: is_digit_def)
  have n: "\<not> str_includes (toLowerCase (full_name (entity 5 ''a'' maria))) (toLowerCase ''zzz'')"
    by (simp add: entity_payload_fields maria_fields lower_examples)
  have d: "data (listPatients (run [Create 5 ''a'' maria])
      \<lparr>page = None, pageSize = None, search = Some []\<rparr>) = [entity 5 ''a'' maria]"
    by (simp add: listPatients_def filteredPatients_empty run_one sortedPatients_one js_slice_def)
  note t = digitless_term_matches_all [OF h1 h2, of "entity 5 ''a'' maria"
      "run [Create 5 ''a'' maria]" None None]
  from t have m: "matchesSearch (entity 5 ''a'' maria) ''zzz''" by blast
  from t have "count (listPatients (run [Create 5 ''a'' maria])
      \<lparr>page = None, pageSize = None, search = Some ''zzz''\<rparr>) =
      length (run [Create 5 ''a'' maria])"
    by blast
  then have c: "count (listPatients (run [Create 5 ''a'' maria])
      \<lparr>page = None, pageSize = None, search = Some ''zzz''\<rparr>) = 1"
    by (simp add: run_one)
  from t have "listPatients (run [Create 5 ''a'' maria])
      \<lparr>page = None, pageSize = None, search = Some ''zzz''\<rparr> =
      listPatients (run [Create 5 ''a'' maria])
      \<lparr>page = None, pageSize = None, search = Some []\<rparr>"
    by blast
  with d have e: "data (listPatients (run [Create 5 ''a'' maria])
      \<lparr>page = None, pageSize = None, search = Some ''zzz''\<rparr>) = [entity 5 ''a'' maria]"
    by simp
  from h1 h2 n m c e show ?thesis
    by (simp add: list_all_iff)
qed

subsection \<open>Listing: order\<close>





subsection \<open>Creating\<close>

lemma createPatient_appends:
  "createPatient now uuid db payload = (entity now uuid payload, db @ [entity now uuid payload])"
  by (simp add: createPatient_def Let_def)




subsection \<open>Updating a stored patient\<close>

lemma find_list_update:
  "i < length xs \<Longrightarrow> P y \<Longrightarrow> \<forall>j<i. \<not> P (xs ! j) \<Longrightarrow> find P (xs[i := y]) = Some y"
proof (induction xs arbitrary: i)
  case Nil
  then show ?case by simp
next
  case (Cons x xs)
  show ?case
  proof (cases i)
    case 0
    with Cons.prems show ?thesis by simp
  next
    case (Suc k)
    with Cons.prems have "\<not> P x" by auto
    moreover from Suc Cons.prems have "find P (xs[k := y]) = Some y"
      by (intro Cons.IH) auto
    ultimately show ?thesis using Suc by simp
  qed
qed

text \<open>Fetching by the identifier after an update returns the merged record.\<close>

lemma getPatientById_after_update:
  assumes "updatePatient now db payload = (Inr new, db')"
  shows "getPatientById db' (PatientUpdate.id_field payload) = Some new"
proof -
  define P where "P = (\<lambda>p::Patient. Patient.id_field p = Some (PatientUpdate.id_field payload))"
  from assms have nn: "0 \<le> findIndex P db"
    by (auto simp: updatePatient_def Let_def P_def split: if_splits)
  with assms have n: "new = merged now (db ! nat (findIndex P db)) payload"
    and d: "db' = db[nat (findIndex P db) := new]"
    by (auto simp: updatePatient_def Let_def P_def split: if_splits)
  from n have "P new" by (simp add: P_def merged_system_fields)
  with findIndex_found [OF nn] show ?thesis
    unfolding d getPatientById_def P_def [symmetric]
    by (intro find_list_update) auto
qed

text \<open>
  Claim C3 states that the new \<open>updated_at\<close> is strictly later than the old one, and that
  \<open>created_at\<close> stays whatever the payload holds for it. The service writes the reading of
  the clock, which resolves milliseconds: a patient created and updated within the same
  millisecond keeps the same \<open>updated_at\<close>. And the spread copies a \<open>created_at\<close> of the
  payload over the stored one.
\<close>

theorem updatePatient_claim_counterexample:
  "updated_at (hd (run [Create 5 ''a'' maria])) = Some 5 \<and>
   updated_at (hd (snd (updatePatient 5 (run [Create 5 ''a'' maria]) (example_update ''a'' ''X'')))) =
     Some 5 \<and>
   \<not> the (updated_at (hd (run [Create 5 ''a'' maria]))) <
      the (updated_at (hd (snd (updatePatient 5 (run [Create 5 ''a'' maria])
         (example_update ''a'' ''X''))))) \<and>
   created_at (hd (run [Create 5 ''a'' maria])) = Some 5 \<and>
   created_at (hd (snd (updatePatient 9 (run [Create 5 ''a'' maria])
      (example_update_created ''a'' 946684800000)))) = Some 946684800000 \<and>
   created_at (hd (snd (updatePatient 9 (run [Create 5 ''a'' maria])
      (example_update_created ''a'' 946684800000)))) \<noteq> created_at (hd (run [Create 5 ''a'' maria]))"
  by (simp add: run_one update_example update_example_created entity_system_fields
      merged_system_fields example_update_created_fields)

text \<open>
  Claim C3, amended. When a stored record has the identifier of the payload,
  \<open>updatePatient\<close> replaces the first such record, and no other, by the merge: every property
  of the payload that is present overrides the stored one and every absent one keeps its
  value; \<open>id\<close> is unchanged whatever the payload holds, and \<open>created_at\<close> is unchanged when
  the payload has no \<open>created_at\<close>; \<open>updated_at\<close> is the reading of the clock; and the merged
  record is both stored and returned.
\<close>

theorem updatePatient_merges:
  assumes "\<exists>p\<in>set db. Patient.id_field p = Some (PatientUpdate.id_field payload)"
  shows "\<exists>idx old new.
     idx < length db \<and> old = db ! idx \<and>
     Patient.id_field old = Some (PatientUpdate.id_field payload) \<and>
     (\<forall>j<idx. Patient.id_field (db ! j) \<noteq> Some (PatientUpdate.id_field payload)) \<and>
     updatePatient now db payload = (Inr new, db[idx := new]) \<and>
     Patient.id_field new = Patient.id_field old \<and>
     (PatientUpdate.created_at payload = Absent \<longrightarrow> created_at new = created_at old) \<and>
     updated_at new = Some now \<and>
     photo_url new = overlay (photo_url old) (PatientUpdate.photo_url payload) \<and>
     full_name new = overlay (full_name old) (PatientUpdate.full_name payload) \<and>
     social_name new = overlay (social_name old) (PatientUpdate.social_name payload) \<and>
     cpf new = overlay (cpf old) (PatientUpdate.cpf payload) \<and>
     rg new = overlay (rg old) (PatientUpdate.rg payload) \<and>
     other_document_type new = overlay (other_document_type old) (PatientUpdate.other_document_type payload) \<and>
     other_document_number new = overlay (other_document_number old) (PatientUpdate.other_document_number payload) \<and>
     gender new = overlay (gender old) (PatientUpdate.gender payload) \<and>
     birth_date new = overlay (birth_date old) (PatientUpdate.birth_date payload) \<and>
     ethnicity new = overlay (ethnicity old) (PatientUpdate.ethnicity payload) \<and>
     race new = overlay (race old) (PatientUpdate.race payload) \<and>
     nationality new = overlay (nationality old) (PatientUpdate.nationality payload) \<and>
     birth_city new = overlay (birth_city old) (PatientUpdate.birth_city payload) \<and>
     birth_state new = overlay (birth_state old) (PatientUpdate.birth_state payload) \<and>
     profession new = overlay (profession old) (PatientUpdate.profession payload) \<and>
     marital_status new = overlay (marital_status old) (PatientUpdate.marital_status payload) \<and>
     mother_name new = overlay (mother_name old) (PatientUpdate.mother_name payload) \<and>
     father_name new = overlay (father_name old) (PatientUpdate.father_name payload) \<and>
     responsible_name new = overlay (responsible_name old) (PatientUpdate.responsible_name payload) \<and>
     responsible_cpf new = overlay (responsible_cpf old) (PatientUpdate.responsible_cpf payload) \<and>
     legacy_code new = overlay (legacy_code old) (PatientUpdate.legacy_code payload) \<and>
     email new = overlay (email old) (PatientUpdate.email payload) \<and>
     phone_primary new = overlay (phone_primary old) (PatientUpdate.phone_primary payload) \<and>
     phone_secondary new = overlay (phone_secondary old) (PatientUpdate.phone_secondary payload) \<and>
     address_zip_code new = overlay (address_zip_code old) (PatientUpdate.address_zip_code payload) \<and>
     address_street new = overlay (address_street old) (PatientUpdate.address_street payload) \<and>
     address_number new = overlay (address_number old) (PatientUpdate.address_number payload) \<and>
     address_complement new = overlay (address_complement old) (PatientUpdate.address_complement payload) \<and>
     address_district new = overlay (address_district old) (PatientUpdate.address_district payload) \<and>
     address_city new = overlay (address_city old) (PatientUpdate.address_city payload) \<and>
     address_state new = overlay (address_state old) (PatientUpdate.address_state payload) \<and>
     observations new = overlay (observations old) (PatientUpdate.observations payload) \<and>
     behavior_score new = overlay (behavior_score old) (PatientUpdate.behavior_score payload) \<and>
     absenteeism_risk_score new = overlay (absenteeism_risk_score old) (PatientUpdate.absenteeism_risk_score payload) \<and>
     communication_preferences new = overlay (communication_preferences old) (PatientUpdate.communication_preferences payload)"
proof -
  define P where "P = (\<lambda>p::Patient. Patient.id_field p = Some (PatientUpdate.id_field payload))"
  define idx where "idx = nat (findIndex P db)"
  define old where "old = db ! idx"
  define new where "new = merged now old payload"
  from assms have "\<not> findIndex P db < 0"
    by (simp add: findIndex_neg_iff P_def)
  then have nn: "0 \<le> findIndex P db" by simp
  from findIndex_found [OF nn]
  have f: "idx < length db" "P old" "\<forall>j<idx. \<not> P (db ! j)"
    by (simp_all add: idx_def old_def)
  have u: "updatePatient now db payload = (Inr new, db[idx := new])"
    using nn by (simp add: updatePatient_def Let_def P_def [symmetric] idx_def [symmetric]
        old_def [symmetric] new_def [symmetric])
  have s: "Patient.id_field new = Patient.id_field old"
    "PatientUpdate.created_at payload = Absent \<longrightarrow> created_at new = created_at old"
    "updated_at new = Some now"
    using f(2) by (simp_all add: new_def merged_system_fields P_def)
  have f2: "Patient.id_field old = Some (PatientUpdate.id_field payload)"
    using f(2) by (simp add: P_def)
  have f3: "\<forall>j<idx. Patient.id_field (db ! j) \<noteq> Some (PatientUpdate.id_field payload)"
    using f(3) by (simp add: P_def)
  have o: "old = db ! idx" by (rule old_def)
  note m = merged_payload_fields [of now old payload, folded new_def]
  from f(1) o f2 f3 u s m show ?thesis
    by blast
qed

theorem updatePatient_merges_witness:
  "map Patient.id_field (run [Create 5 ''a'' maria]) = [Some ''a''] \<and>
   PatientUpdate.id_field (example_update ''a'' ''X'') = ''a'' \<and>
   PatientUpdate.created_at (example_update ''a'' ''X'') = Absent \<and>
   (\<exists>new. updatePatient 9 (run [Create 5 ''a'' maria]) (example_update ''a'' ''X'') =
            (Inr new, [new]) \<and>
          full_name new = ''X'' \<and> cpf new = ''12345678901'' \<and>
          Patient.id_field new = Some ''a'' \<and> created_at new = Some 5 \<and>
          updated_at new = Some 9)"
proof -
  have h: "\<exists>p\<in>set (run [Create 5 ''a'' maria]).
      Patient.id_field p = Some (PatientUpdate.id_field (example_update ''a'' ''X''))"
    by (simp add: run_one entity_system_fields example_update_fields)
  from updatePatient_merges [OF h, of 9]
  obtain idx old new where
    i: "idx < length (run [Create 5 ''a'' maria])" and
    o: "old = run [Create 5 ''a'' maria] ! idx" and
    u: "updatePatient 9 (run [Create 5 ''a'' maria]) (example_update ''a'' ''X'') =
          (Inr new, (run [Create 5 ''a'' maria])[idx := new])" and
    f: "Patient.id_field new = Patient.id_field old"
       "PatientUpdate.created_at (example_update ''a'' ''X'') = Absent \<longrightarrow>
          created_at new = created_at old"
       "updated_at new = Some 9"
       "full_name new = overlay (full_name old) (PatientUpdate.full_name (example_update ''a'' ''X''))"
       "cpf new = overlay (cpf old) (PatientUpdate.cpf (example_update ''a'' ''X''))"
    by blast
  from i have z: "idx = 0" by (simp add: run_one)
  from o z have old: "old = entity 5 ''a'' maria" by (simp add: run_one)
  from u z have "updatePatient 9 (run [Create 5 ''a'' maria]) (example_update ''a'' ''X'') =
      (Inr new, [new])"
    by (simp add: run_one)
  moreover from f old have "full_name new = ''X''" "cpf new = ''12345678901''"
    "Patient.id_field new = Some ''a''" "created_at new = Some 5" "updated_at new = Some 9"
    by (simp_all add: example_update_fields entity_payload_fields entity_system_fields
        maria_fields)
  ultimately show ?thesis
    by (simp add: run_one entity_system_fields example_update_fields)
qed

subsection \<open>Invariants of the stored records\<close>

text \<open>
  Claim C8. The repository neither strips nor validates: when every payload it is handed
  meets the contract of the form (a \<open>cpf\<close> of 11 digits, a \<open>phone_primary\<close> of at least 10
  digits), the \<open>cpf\<close> and the \<open>phone_primary\<close> of every stored patient consist of digits only,
  after any sequence of calls.
\<close>

theorem stored_digits_only:
  assumes "list_all valid_op ops"
  shows "\<forall>p\<in>set (run ops). digits_only (cpf p) \<and> digits_only (phone_primary p)"
  using assms
proof (induction ops rule: rev_induct)
  case Nil
  then show ?case by (simp add: run_def)
next
  case (snoc x ops)
  then have IH: "\<forall>p\<in>set (run ops). digits_only (cpf p) \<and> digits_only (phone_primary p)"
    and v: "valid_op x" by simp_all
  show ?case
  proof
    fix p assume "p \<in> set (run (ops @ [x]))"
    then have "p \<in> set (step (run ops) x)" by (simp add: run_snoc)
    from set_step [OF this] show "digits_only (cpf p) \<and> digits_only (phone_primary p)"
    proof (elim disjE exE conjE)
      assume "p \<in> set (run ops)"
      with IH show ?thesis by blast
    next
      fix now uuid payload
      assume "x = Create now uuid payload" "p = entity now uuid payload"
      with v show ?thesis
        by (simp add: valid_insert_def valid_cpf_def valid_phone_def entity_payload_fields)
    next
      fix now payload old
      assume x: "x = Update now payload" and o: "old \<in> set (run ops)"
        and p: "p = merged now old payload"
      from o IH have d: "digits_only (cpf old)" "digits_only (phone_primary old)" by blast+
      from v x have vu: "valid_update payload" by simp
      have "cpf p = overlay (cpf old) (PatientUpdate.cpf payload)"
        "phone_primary p = overlay (phone_primary old) (PatientUpdate.phone_primary payload)"
        using merged_payload_fields [of now old payload] by (simp_all add: p)
      with d vu show ?thesis
        by (cases "PatientUpdate.cpf payload"; cases "PatientUpdate.phone_primary payload")
          (simp_all add: valid_update_def valid_cpf_def valid_phone_def)
    qed
  qed
qed

theorem stored_digits_only_witness:
  "list_all valid_op [Create 5 ''a'' maria,
      Update 6 ((example_update ''a'' ''X'')\<lparr>PatientUpdate.cpf := Present ''98765432100''\<rparr>)] \<and>
   map cpf (run [Create 5 ''a'' maria,
      Update 6 ((example_update ''a'' ''X'')\<lparr>PatientUpdate.cpf := Present ''98765432100''\<rparr>)]) =
     [''98765432100''] \<and>
   list_all (\<lambda>p. digits_only (cpf p) \<and> digits_only (phone_primary p))
     (run [Create 5 ''a'' maria,
      Update 6 ((example_update ''a'' ''X'')\<lparr>PatientUpdate.cpf := Present ''98765432100''\<rparr>)])"
proof -
  have h: "list_all valid_op [Create 5 ''a'' maria,
      Update 6 ((example_update ''a'' ''X'')\<lparr>PatientUpdate.cpf := Present ''98765432100''\<rparr>)]"
    by (simp add: valid_examples)
  have c: "map cpf (run [Create 5 ''a'' maria,
      Update 6 ((example_update ''a'' ''X'')\<lparr>PatientUpdate.cpf := Present ''98765432100''\<rparr>)]) =
     [''98765432100'']"
    using merged_payload_fields [of 6 "entity 5 ''a'' maria"
        "(example_update ''a'' ''X'')\<lparr>PatientUpdate.cpf := Present ''98765432100''\<rparr>"]
    by (simp add: run_def createPatient_def Let_def update_example_cpf)
  from stored_digits_only [OF h] h c show ?thesis
    by (simp add: list_all_iff)
qed

text \<open>
  Claim C9 states the invariant for every sequence of calls. An update whose payload has a
  \<open>created_at\<close> stores it: with the readings 5 and 9 of a monotone clock, a payload dated
  2000-01-01 leaves a record whose \<open>created_at\<close> is later than its \<open>updated_at\<close>.
\<close>

theorem created_before_updated_counterexample:
  "clock_monotone [Create 5 ''a'' maria, Update 9 (example_update_created ''a'' 946684800000)] \<and>
   map created_at (run [Create 5 ''a'' maria,
      Update 9 (example_update_created ''a'' 946684800000)]) = [Some 946684800000] \<and>
   map updated_at (run [Create 5 ''a'' maria,
      Update 9 (example_update_created ''a'' 946684800000)]) = [Some 9] \<and>
   \<not> (946684800000 :: int) \<le> 9"
  by (simp add: clock_monotone_def run_def createPatient_appends update_example_created
      merged_system_fields example_update_created_fields)

text \<open>
  Claim C9, amended. When the readings of the clock never decrease and no update payload
  has a \<open>created_at\<close>, every stored patient has both timestamps and
  \<open>created_at \<le> updated_at\<close>, after any sequence of calls; \<open>createPatient\<close> sets the two to
  the same instant.
\<close>

theorem created_before_updated:
  assumes "clock_monotone ops" and "list_all without_created_at ops"
  shows "(\<forall>p\<in>set (run ops). \<exists>c u. created_at p = Some c \<and> updated_at p = Some u \<and> c \<le> u) \<and>
     created_at (fst (createPatient now uuid db payload)) =
       updated_at (fst (createPatient now uuid db payload))"
proof -
  have e: "created_at (fst (createPatient now uuid db payload)) =
       updated_at (fst (createPatient now uuid db payload))"
    by (simp add: createPatient_def Let_def entity_system_fields)
  have "\<forall>p\<in>set (run ops). \<exists>c u. created_at p = Some c \<and> updated_at p = Some u \<and> c \<le> u \<and>
          c \<in> set (clock_readings ops)"
    using assms
  proof (induction ops rule: rev_induct)
    case Nil
    then show ?case by (simp add: run_def)
  next
    case (snoc x ops)
    from snoc.prems(1) have mono: "sorted (clock_readings ops @ clock_readings [x])"
      by (simp add: clock_monotone_def clock_readings_append)
    then have "clock_monotone ops"
      by (simp add: clock_monotone_def sorted_append)
    moreover from snoc.prems(2) have "list_all without_created_at ops"
      and wx: "without_created_at x" by simp_all
    ultimately have IH: "\<forall>p\<in>set (run ops). \<exists>c u. created_at p = Some c \<and>
        updated_at p = Some u \<and> c \<le> u \<and> c \<in> set (clock_readings ops)"
      using snoc.IH by blast
    show ?case
    proof
      fix p assume "p \<in> set (run (ops @ [x]))"
      then have "p \<in> set (step (run ops) x)" by (simp add: run_snoc)
      from set_step [OF this]
      show "\<exists>c u. created_at p = Some c \<and> updated_at p = Some u \<and> c \<le> u \<and>
          c \<in> set (clock_readings (ops @ [x]))"
      proof (elim disjE exE conjE)
        assume "p \<in> set (run ops)"
        with IH show ?thesis by (fastforce simp: clock_readings_append)
      next
        fix now uuid payload
        assume "x = Create now uuid payload" "p = entity now uuid payload"
        then show ?thesis
          by (simp add: entity_system_fields clock_readings_append)
      next
        fix now payload old
        assume x: "x = Update now payload" and o: "old \<in> set (run ops)"
          and p: "p = merged now old payload"
        from o IH obtain c where c: "created_at old = Some c" "c \<in> set (clock_readings ops)"
          by blast
        from wx x have a: "PatientUpdate.created_at payload = Absent" by simp
        from mono x c(2) have "c \<le> now"
          by (simp add: sorted_append)
        with c p a show ?thesis
          by (simp add: merged_system_fields clock_readings_append)
      qed
    qed
  qed
  with e show ?thesis by blast
qed

theorem created_before_updated_witness:
  "clock_monotone [Create 5 ''a'' maria, Update 9 (example_update ''a'' ''X'')] \<and>
   list_all without_created_at [Create 5 ''a'' maria, Update 9 (example_update ''a'' ''X'')] \<and>
   map created_at (run [Create 5 ''a'' maria, Update 9 (example_update ''a'' ''X'')]) = [Some 5] \<and>
   map updated_at (run [Create 5 ''a'' maria, Update 9 (example_update ''a'' ''X'')]) = [Some 9] \<and>
   list_all (\<lambda>p. \<exists>c u. created_at p = Some c \<and> updated_at p = Some u \<and> c \<le> u)
     (run [Create 5 ''a'' maria, Update 9 (example_update ''a'' ''X'')])"
proof -
  have h: "clock_monotone [Create 5 ''a'' maria, Update 9 (example_update ''a'' ''X'')]"
    by (simp add: clock_monotone_def)
  have w: "list_all without_created_at
      [Create 5 ''a'' maria, Update 9 (example_update ''a'' ''X'')]"
    by (simp add: example_update_fields)
  have r: "run [Create 5 ''a'' maria, Update 9 (example_update ''a'' ''X'')] =
      [merged 9 (entity 5 ''a'' maria) (example_update ''a'' ''X'')]"
    by (simp add: run_def createPatient_def Let_def update_example)
  from created_before_updated [OF h w, of 5 "''a''" "[]" maria] h w show ?thesis
    by (simp add: list_all_iff r merged_system_fields entity_system_fields
        example_update_fields)
qed

end
